theory Spec2Isabelle
  imports Complex_Main
begin

section \<open>Python values as decoded from JSON\<close>

text \<open>
  \<^verbatim>\<open>json.loads\<close> yields \<^verbatim>\<open>None\<close>, booleans, unbounded integers, floats,
  strings, lists and dictionaries with string keys. A float is its exact rational value,
  negative zero, an infinity (\<open>FInf True\<close> is positive) or NaN. A dictionary is an
  association list in insertion order.
\<close>

datatype pyfloat = FFinite rat | FNegZero | FInf bool | FNaN

datatype pyval =
    PNone
  | PBool bool
  | PInt int
  | PFloat pyfloat
  | PStr string
  | PList "pyval list"
  | PDict "(string \<times> pyval) list"

datatype pyerr =
    AttributeError | TypeError | ValueError | OverflowError | KeyError | IndexError
  | SinkException

text \<open>Sequencing of statements that may raise: the first exception ends the computation.\<close>

definition bind_res :: "pyerr + 'a \<Rightarrow> ('a \<Rightarrow> pyerr + 'b) \<Rightarrow> pyerr + 'b" where
  "bind_res m f = (case m of Inl e \<Rightarrow> Inl e | Inr x \<Rightarrow> f x)"

subsection \<open>Dictionary access, truthiness, iteration\<close>

definition dict_get :: "(string \<times> pyval) list \<Rightarrow> string \<Rightarrow> pyval \<Rightarrow> pyval" where
  "dict_get d k dflt = (case map_of d k of None \<Rightarrow> dflt | Some v \<Rightarrow> v)"

text \<open>\<^verbatim>\<open>x.get(k, dflt)\<close>: only a dictionary has the attribute \<^verbatim>\<open>get\<close>.\<close>

definition py_get :: "pyval \<Rightarrow> string \<Rightarrow> pyval \<Rightarrow> pyerr + pyval" where
  "py_get v k dflt = (case v of PDict d \<Rightarrow> Inr (dict_get d k dflt) | _ \<Rightarrow> Inl AttributeError)"

fun truthy :: "pyval \<Rightarrow> bool" where
  "truthy PNone = False"
| "truthy (PBool b) = b"
| "truthy (PInt n) = (n \<noteq> 0)"
| "truthy (PFloat (FFinite q)) = (q \<noteq> 0)"
| "truthy (PFloat FNegZero) = False"
| "truthy (PFloat (FInf s)) = True"
| "truthy (PFloat FNaN) = True"
| "truthy (PStr s) = (s \<noteq> [])"
| "truthy (PList xs) = (xs \<noteq> [])"
| "truthy (PDict d) = (d \<noteq> [])"

text \<open>\<^verbatim>\<open>a or b\<close>.\<close>

definition py_or :: "pyval \<Rightarrow> pyval \<Rightarrow> pyval" where
  "py_or a b = (if truthy a then a else b)"

text \<open>
  The values a \<^verbatim>\<open>for\<close> loop visits: the elements of a list, the characters of a string,
  the keys of a dictionary; anything else is not iterable.
\<close>

fun py_iter :: "pyval \<Rightarrow> pyerr + pyval list" where
  "py_iter (PList xs) = Inr xs"
| "py_iter (PStr s) = Inr (map (\<lambda>c. PStr [c]) s)"
| "py_iter (PDict d) = Inr (map (\<lambda>kv. PStr (fst kv)) d)"
| "py_iter _ = Inl TypeError"

fun py_len :: "pyval \<Rightarrow> pyerr + nat" where
  "py_len (PList xs) = Inr (length xs)"
| "py_len (PStr s) = Inr (length s)"
| "py_len (PDict d) = Inr (length d)"
| "py_len _ = Inl TypeError"

text \<open>
  \<^verbatim>\<open>x[i]\<close> for a literal index \<open>i \<ge> 0\<close>. The keys of a decoded dictionary are strings,
  so an integer subscript is never found.
\<close>

fun py_index :: "pyval \<Rightarrow> nat \<Rightarrow> pyerr + pyval" where
  "py_index (PList xs) i = (if i < length xs then Inr (xs ! i) else Inl IndexError)"
| "py_index (PStr s) i = (if i < length s then Inr (PStr [s ! i]) else Inl IndexError)"
| "py_index (PDict d) i = Inl KeyError"
| "py_index _ i = Inl TypeError"

text \<open>\<^verbatim>\<open>'-' in x\<close>.\<close>

fun dash_in :: "pyval \<Rightarrow> pyerr + bool" where
  "dash_in (PStr s) = Inr (CHR ''-'' \<in> set s)"
| "dash_in (PList xs) = Inr (PStr ''-'' \<in> set xs)"
| "dash_in (PDict d) = Inr (''-'' \<in> set (map fst d))"
| "dash_in _ = Inl TypeError"

text \<open>\<^verbatim>\<open>x.split('-')[0]\<close>: only a string has the attribute \<^verbatim>\<open>split\<close>.\<close>

fun split_dash_first :: "pyval \<Rightarrow> pyerr + pyval" where
  "split_dash_first (PStr s) = Inr (PStr (takeWhile (\<lambda>c. c \<noteq> CHR ''-'') s))"
| "split_dash_first _ = Inl AttributeError"

subsection \<open>The built-in \<^verbatim>\<open>int\<close>\<close>

text \<open>
  White space that \<^verbatim>\<open>int\<close> strips from both ends of a string (code points below 256):
  tab, line feed, vertical tab, form feed, carriage return, space, NEL and the
  no-break space.
\<close>

definition int_space :: "char \<Rightarrow> bool" where
  "int_space c = (c \<in> set [CHR 0x09, CHR 0x0A, CHR 0x0B, CHR 0x0C, CHR 0x0D, CHR 0x20,
                            CHR 0x85, CHR 0xA0])"

definition strip_space :: "string \<Rightarrow> string" where
  "strip_space s = rev (dropWhile int_space (rev (dropWhile int_space s)))"

definition digit_val :: "char \<Rightarrow> nat option" where
  "digit_val c = (let n = (of_char c :: nat) in if 48 \<le> n \<and> n \<le> 57 then Some (n - 48) else None)"

text \<open>
  The digits after the first one, with single underscores allowed between digits; the
  result is the value and the number of digits read.
\<close>

fun digits_acc :: "nat \<Rightarrow> nat \<Rightarrow> string \<Rightarrow> (nat \<times> nat) option" where
  "digits_acc acc cnt [] = Some (acc, cnt)"
| "digits_acc acc cnt [c] =
     (case digit_val c of None \<Rightarrow> None | Some v \<Rightarrow> Some (10 * acc + v, Suc cnt))"
| "digits_acc acc cnt (c # d # ds) =
     (if c = CHR ''_'' then
        (case digit_val d of None \<Rightarrow> None
         | Some v \<Rightarrow> digits_acc (10 * acc + v) (Suc cnt) ds)
      else
        (case digit_val c of None \<Rightarrow> None
         | Some v \<Rightarrow> digits_acc (10 * acc + v) (Suc cnt) (d # ds)))"

definition parse_digits :: "string \<Rightarrow> (nat \<times> nat) option" where
  "parse_digits s =
     (case s of [] \<Rightarrow> None
      | c # cs \<Rightarrow> (case digit_val c of None \<Rightarrow> None | Some v \<Rightarrow> digits_acc v 1 cs))"

text \<open>The interpreter's default limit on the digits of an integer string.\<close>

definition int_max_str_digits :: nat where
  "int_max_str_digits = 4300"

definition str_to_int :: "string \<Rightarrow> pyerr + int" where
  "str_to_int s =
     (let t = strip_space s;
          neg = (case t of [] \<Rightarrow> False | c # _ \<Rightarrow> c = CHR ''-'');
          body = (case t of [] \<Rightarrow> []
                  | c # cs \<Rightarrow> if c = CHR ''-'' \<or> c = CHR ''+'' then cs else t)
      in case parse_digits body of
           None \<Rightarrow> Inl ValueError
         | Some (n, cnt) \<Rightarrow>
             if cnt > int_max_str_digits then Inl ValueError
             else Inr (if neg then - int n else int n))"

definition trunc_rat :: "rat \<Rightarrow> int" where
  "trunc_rat q = (if q < 0 then \<lceil>q\<rceil> else \<lfloor>q\<rfloor>)"

fun py_int :: "pyval \<Rightarrow> pyerr + int" where
  "py_int PNone = Inl TypeError"
| "py_int (PBool b) = Inr (if b then 1 else 0)"
| "py_int (PInt n) = Inr n"
| "py_int (PFloat (FFinite q)) = Inr (trunc_rat q)"
| "py_int (PFloat FNegZero) = Inr 0"
| "py_int (PFloat (FInf s)) = Inl OverflowError"
| "py_int (PFloat FNaN) = Inl ValueError"
| "py_int (PStr s) = str_to_int s"
| "py_int (PList xs) = Inl TypeError"
| "py_int (PDict d) = Inl TypeError"

text \<open>
  \<^verbatim>\<open>try: x = int(x)  except (TypeError, ValueError): x = None\<close>.
  Any other exception leaves the handler.
\<close>

definition int_or_none :: "pyval \<Rightarrow> pyerr + pyval" where
  "int_or_none v =
     (case py_int v of
        Inr n \<Rightarrow> Inr (PInt n)
      | Inl e \<Rightarrow> if e = TypeError \<or> e = ValueError then Inr PNone else Inl e)"

text \<open>The same handler with \<^verbatim>\<open>if avail < 0: avail = None\<close> inside the \<^verbatim>\<open>try\<close>.\<close>

definition nonneg_int_or_none :: "pyval \<Rightarrow> pyerr + pyval" where
  "nonneg_int_or_none v =
     (case py_int v of
        Inr n \<Rightarrow> Inr (if n < 0 then PNone else PInt n)
      | Inl e \<Rightarrow> if e = TypeError \<or> e = ValueError then Inr PNone else Inl e)"

subsection \<open>The built-in \<^verbatim>\<open>str\<close>\<close>

definition digit_char :: "nat \<Rightarrow> char" where
  "digit_char d = ''0123456789'' ! d"

function nat_digits :: "nat \<Rightarrow> string" where
  "nat_digits n = (if n < 10 then [digit_char n] else nat_digits (n div 10) @ [digit_char (n mod 10)])"
  by pat_completeness auto
termination
  by (relation "measure id") auto

declare nat_digits.simps [simp del]

text \<open>
  \<^verbatim>\<open>str\<close> of \<^verbatim>\<open>None\<close>, a boolean, an integer (refused beyond the digit limit) and a
  string. The text of a float, a list or a dictionary is the interpreter's \<^verbatim>\<open>repr\<close>,
  taken as the parameter \<open>py_repr\<close>.
\<close>

fun py_str :: "(pyval \<Rightarrow> pyerr + string) \<Rightarrow> pyval \<Rightarrow> pyerr + string" where
  "py_str py_repr PNone = Inr ''None''"
| "py_str py_repr (PBool b) = Inr (if b then ''True'' else ''False'')"
| "py_str py_repr (PInt n) =
     (let ds = nat_digits (nat \<bar>n\<bar>)
      in if length ds > int_max_str_digits then Inl ValueError
         else Inr (if n < 0 then CHR ''-'' # ds else ds))"
| "py_str py_repr (PStr s) = Inr s"
| "py_str py_repr v = py_repr v"

subsection \<open>Keys of the lookup dictionary\<close>

text \<open>
  Lists and dictionaries are unhashable. Hashable keys are compared as Python compares
  them: booleans, integers and finite floats by numeric value, everything else by
  content (every NaN decoded from JSON is the one shared object, found by identity).
\<close>

fun hashable :: "pyval \<Rightarrow> bool" where
  "hashable (PList xs) = False"
| "hashable (PDict d) = False"
| "hashable _ = True"

fun num_of :: "pyval \<Rightarrow> rat option" where
  "num_of (PBool b) = Some (if b then 1 else 0)"
| "num_of (PInt n) = Some (of_int n)"
| "num_of (PFloat (FFinite q)) = Some q"
| "num_of (PFloat FNegZero) = Some 0"
| "num_of _ = None"

definition key_eq :: "pyval \<Rightarrow> pyval \<Rightarrow> bool" where
  "key_eq a b =
     (case num_of a of
        Some x \<Rightarrow> (case num_of b of Some y \<Rightarrow> x = y | None \<Rightarrow> False)
      | None \<Rightarrow> (case num_of b of Some y \<Rightarrow> False | None \<Rightarrow> a = b))"

type_synonym lookup = "(pyval \<times> pyval) list"

text \<open>\<^verbatim>\<open>d[k] = v\<close>: an equal key keeps its place and takes the new value.\<close>

fun lookup_set :: "lookup \<Rightarrow> pyval \<Rightarrow> pyval \<Rightarrow> lookup" where
  "lookup_set [] k v = [(k, v)]"
| "lookup_set ((k', v') # t) k v =
     (if key_eq k' k then (k', v) # t else (k', v') # lookup_set t k v)"

fun lookup_find :: "lookup \<Rightarrow> pyval \<Rightarrow> pyval option" where
  "lookup_find [] k = None"
| "lookup_find ((k', v') # t) k = (if key_eq k' k then Some v' else lookup_find t k)"

text \<open>\<^verbatim>\<open>d.get(k, dflt)\<close> on the lookup dictionary: an unhashable key raises.\<close>

definition lookup_get :: "lookup \<Rightarrow> pyval \<Rightarrow> pyval \<Rightarrow> pyerr + pyval" where
  "lookup_get tbl k dflt =
     (if hashable k then Inr (case lookup_find tbl k of None \<Rightarrow> dflt | Some v \<Rightarrow> v)
      else Inl TypeError)"

text \<open>\<^verbatim>\<open>{d.get('siteId', ''): d for d in ...}\<close>, one record after the other.\<close>

fun build_lookup :: "lookup \<Rightarrow> pyval list \<Rightarrow> pyerr + lookup" where
  "build_lookup tbl [] = Inr tbl"
| "build_lookup tbl (d # ds) =
     bind_res (py_get d ''siteId'' (PStr '''')) (\<lambda>k.
       if hashable k then build_lookup (lookup_set tbl k d) ds else Inl TypeError)"

section \<open>The normalized row\<close>

record row =
  state :: pyval
  site_id :: pyval
  name :: pyval
  highway :: pyval
  direction :: pyval
  latitude :: pyval
  longitude :: pyval
  capacity :: pyval
  available_spaces :: pyval
  trend :: pyval
  is_open :: pyval
  trust_data :: pyval
  source_timestamp :: pyval

text \<open>The loop that appends one row per element; an exception in any element ends it.\<close>

primrec collect_rows :: "(pyval \<Rightarrow> pyerr + row) \<Rightarrow> pyval list \<Rightarrow> pyerr + row list" where
  "collect_rows f [] = Inr []"
| "collect_rows f (x # xs) =
     bind_res (f x) (\<lambda>r. bind_res (collect_rows f xs) (\<lambda>rs. Inr (r # rs)))"

section \<open>\<^verbatim>\<open>parse_standard\<close>\<close>

text \<open>The \<^verbatim>\<open>if isinstance(loc, list) and loc: ... elif not isinstance(loc, dict): ...\<close> step.\<close>

fun normalize_loc :: "pyval \<Rightarrow> pyval" where
  "normalize_loc (PList (x # xs)) = x"
| "normalize_loc (PDict d) = PDict d"
| "normalize_loc _ = PDict []"

text \<open>The body of the loop over the static records, for the record \<open>s\<close>.\<close>

definition standard_row ::
  "(pyval \<Rightarrow> pyerr + string) \<Rightarrow> string \<Rightarrow> lookup \<Rightarrow> pyval \<Rightarrow> pyerr + row" where
  "standard_row py_repr state_name dyn_lookup s =
     bind_res (py_get s ''siteId'' (PStr '''')) (\<lambda>sid.
     bind_res (py_get s ''location'' (PDict [])) (\<lambda>loc0.
     let loc = normalize_loc loc0 in
     bind_res (lookup_get dyn_lookup sid (PDict [])) (\<lambda>dyn.
     bind_res (py_get dyn ''capacity'' PNone) (\<lambda>dcap.
     bind_res (py_get s ''capacity'' dcap) (\<lambda>cap0.
     bind_res (int_or_none cap0) (\<lambda>cap.
     bind_res (py_get dyn ''reportedAvailable'' PNone) (\<lambda>avail0.
     bind_res (int_or_none avail0) (\<lambda>avail.
     bind_res (py_get s ''name'' (PStr '''')) (\<lambda>nm.
     bind_res (py_get s ''relevantHighway'' (PStr '''')) (\<lambda>hw.
     bind_res (py_get s ''directionOfTravel'' (PStr '''')) (\<lambda>dir.
     bind_res (py_get loc ''latitude'' PNone) (\<lambda>lat.
     bind_res (py_get loc ''longitude'' PNone) (\<lambda>lon.
     bind_res (py_get dyn ''trend'' (PStr '''')) (\<lambda>tr.
     bind_res (py_get dyn ''open'' (PStr '''')) (\<lambda>op0.
     bind_res (py_str py_repr op0) (\<lambda>op.
     bind_res (py_get dyn ''trustData'' (PStr '''')) (\<lambda>td0.
     bind_res (py_str py_repr td0) (\<lambda>td.
     bind_res (py_get s ''timeStamp'' (PStr '''')) (\<lambda>sts.
     bind_res (py_get dyn ''timeStamp'' sts) (\<lambda>ts.
       Inr \<lparr> state = PStr state_name, site_id = sid, name = nm, highway = hw,
             direction = dir, latitude = lat, longitude = lon, capacity = cap,
             available_spaces = avail, trend = tr, is_open = PStr op,
             trust_data = PStr td, source_timestamp = ts \<rparr>))))))))))))))))))))"

definition parse_standard ::
  "(pyval \<Rightarrow> pyerr + string) \<Rightarrow> string \<Rightarrow> pyval \<Rightarrow> pyval \<Rightarrow> pyerr + row list" where
  "parse_standard py_repr state_name static_list dynamic_list =
     bind_res (py_iter (py_or dynamic_list (PList []))) (\<lambda>ds.
     bind_res (build_lookup [] ds) (\<lambda>dyn_lookup.
     bind_res (py_iter (py_or static_list (PList []))) (\<lambda>ss.
       collect_rows (standard_row py_repr state_name dyn_lookup) ss)))"

section \<open>\<^verbatim>\<open>parse_indiana\<close>\<close>

text \<open>\<^verbatim>\<open>coords[i] if len(coords) >= 2 else None\<close>.\<close>

definition coord_at :: "pyval \<Rightarrow> nat \<Rightarrow> pyerr + pyval" where
  "coord_at coords i =
     bind_res (py_len coords) (\<lambda>n. if n \<ge> 2 then py_index coords i else Inr PNone)"

text \<open>\<^verbatim>\<open>label.split('-')[0] if '-' in label else ''\<close>.\<close>

definition direction_of :: "pyval \<Rightarrow> pyerr + pyval" where
  "direction_of label =
     bind_res (dash_in label) (\<lambda>b. if b then split_dash_first label else Inr (PStr ''''))"

definition status_to_open :: "pyval \<Rightarrow> pyval" where
  "status_to_open status =
     (if status = PStr ''open'' then PStr ''True''
      else if status = PStr ''closed'' then PStr ''False'' else PStr '''')"

text \<open>The body of the loop over the features, for the feature \<open>feat\<close>.\<close>

definition indiana_row :: "pyval \<Rightarrow> pyerr + row" where
  "indiana_row feat =
     bind_res (py_get feat ''properties'' (PDict [])) (\<lambda>props.
     bind_res (py_get feat ''geometry'' (PDict [])) (\<lambda>geo.
     bind_res (py_get geo ''coordinates'' (PList [PNone, PNone])) (\<lambda>coords.
     bind_res (py_get props ''tpims'' (PDict [])) (\<lambda>tpims.
     bind_res (py_get tpims ''capacity'' PNone) (\<lambda>cap0.
     bind_res (int_or_none cap0) (\<lambda>cap.
     bind_res (py_get tpims ''spaces_available'' PNone) (\<lambda>avail0.
     bind_res (nonneg_int_or_none avail0) (\<lambda>avail.
     bind_res (py_get props ''site_area_status'' (PStr '''')) (\<lambda>status.
     bind_res (py_get feat ''id'' (PStr '''')) (\<lambda>fid.
     bind_res (py_get props ''site_label'' fid) (\<lambda>sid.
     bind_res (py_get props ''site_area_location'' (PStr '''')) (\<lambda>floc.
     bind_res (py_get props ''site_area_description'' floc) (\<lambda>nm.
     bind_res (py_get props ''site_route'' (PStr '''')) (\<lambda>sroute.
     bind_res (py_get tpims ''route'' sroute) (\<lambda>hw.
     bind_res (py_get props ''site_area_label'' (PStr '''')) (\<lambda>label.
     bind_res (direction_of label) (\<lambda>dir.
     bind_res (coord_at coords 1) (\<lambda>lat.
     bind_res (coord_at coords 0) (\<lambda>lon.
     bind_res (py_get tpims ''last_data'' (PStr '''')) (\<lambda>ts.
       Inr \<lparr> state = PStr ''Indiana'', site_id = sid, name = nm, highway = hw,
             direction = dir, latitude = lat, longitude = lon, capacity = cap,
             available_spaces = avail, trend = PStr '''', is_open = status_to_open status,
             trust_data = PStr '''', source_timestamp = ts \<rparr>))))))))))))))))))))"

text \<open>\<^verbatim>\<open>static_data.get('features', []) if isinstance(static_data, dict) else []\<close>.\<close>

definition features_of :: "pyval \<Rightarrow> pyval" where
  "features_of static_data =
     (case static_data of PDict d \<Rightarrow> dict_get d ''features'' (PList []) | _ \<Rightarrow> PList [])"

definition parse_indiana :: "pyval \<Rightarrow> pyval \<Rightarrow> pyerr + row list" where
  "parse_indiana static_data dynamic_data =
     bind_res (py_iter (features_of static_data)) (\<lambda>feats. collect_rows indiana_row feats)"

section \<open>\<^verbatim>\<open>main\<close>\<close>

definition FEEDS :: "(string \<times> (string \<times> string) list) list" where
  "FEEDS =
     [(''Illinois'',
         [(''dynamic'', ''https://truckparking.travelmidwest.com/TPIMS_Dynamic.json''),
          (''static'', ''https://truckparking.travelmidwest.com/TPIMS_Static.json'')]),
      (''Indiana'',
         [(''dynamic'', ''https://content.trafficwise.org/json/tpims.json''),
          (''static'', ''https://content.trafficwise.org/json/rest_area.json'')]),
      (''Kentucky'',
         [(''dynamic'', ''http://www.trimarc.org/dat/tpims/TPIMS_Dynamic.json''),
          (''static'', ''http://www.trimarc.org/dat/tpims/TPIMS_Static.json'')]),
      (''Minnesota'',
         [(''dynamic'', ''http://iris.dot.state.mn.us/iris/TPIMS_dynamic''),
          (''static'', ''http://iris.dot.state.mn.us/iris/TPIMS_static'')])]"

subsection \<open>The poll time\<close>

text \<open>The reading of the clock, \<^verbatim>\<open>datetime.now(timezone.utc)\<close>, is an input of the run.\<close>

record datetime =
  year :: nat
  month :: nat
  day :: nat
  hour :: nat
  minute :: nat
  second :: nat

definition valid_datetime :: "datetime \<Rightarrow> bool" where
  "valid_datetime t =
     (1000 \<le> year t \<and> year t \<le> 9999 \<and> 1 \<le> month t \<and> month t \<le> 12 \<and>
      1 \<le> day t \<and> day t \<le> 31 \<and> hour t < 24 \<and> minute t < 60 \<and> second t < 60)"

definition pad2 :: "nat \<Rightarrow> string" where
  "pad2 n = (if n < 10 then CHR ''0'' # nat_digits n else nat_digits n)"

text \<open>
  \<^verbatim>\<open>strftime('%Y-%m-%dT%H:%M:%SZ')\<close>. \<^verbatim>\<open>%Y\<close> is the year in decimal, which the C
  library does not pad; the other fields are padded to two digits.
\<close>

definition strftime :: "datetime \<Rightarrow> string" where
  "strftime t =
     nat_digits (year t) @ ''-'' @ pad2 (month t) @ ''-'' @ pad2 (day t) @ ''T'' @
     pad2 (hour t) @ '':'' @ pad2 (minute t) @ '':'' @ pad2 (second t) @ ''Z''"

definition is_digit :: "char \<Rightarrow> bool" where
  "is_digit c = (digit_val c \<noteq> None)"

text \<open>
  A string of the shape \<^verbatim>\<open>^\d{4}-\d{2}-\d{2}T\d{2}:\d{2}:\d{2}Z$\<close>: twenty characters,
  ASCII digits and the separators at their places.
\<close>

definition poll_utc_shape :: "string \<Rightarrow> bool" where
  "poll_utc_shape s =
     (length s = 20 \<and>
      list_all is_digit (map (\<lambda>i. s ! i) [0, 1, 2, 3, 5, 6, 8, 9, 11, 12, 14, 15, 17, 18]) \<and>
      map (\<lambda>i. s ! i) [4, 7, 10, 13, 16, 19] = ''--T::Z'')"

subsection \<open>Fetching\<close>

text \<open>
  \<^verbatim>\<open>fetch_json\<close> is the network: for a URL it gives the decoded document, or the text of
  the exception it raised. \<open>raw\<close> holds \<^verbatim>\<open>None\<close> for a feed that failed.
\<close>

type_synonym fetcher = "string \<Rightarrow> string + pyval"

definition fetch_feed :: "fetcher \<Rightarrow> string \<Rightarrow> pyval" where
  "fetch_feed fetch_json url = (case fetch_json url of Inr data \<Rightarrow> data | Inl e \<Rightarrow> PNone)"

definition feed_error :: "fetcher \<Rightarrow> string \<Rightarrow> string \<times> string \<Rightarrow> string list" where
  "feed_error fetch_json state_name fu =
     (case fetch_json (snd fu) of
        Inr data \<Rightarrow> []
      | Inl e \<Rightarrow> [state_name @ '' '' @ fst fu @ '': '' @ e])"

definition fetch_raw :: "fetcher \<Rightarrow> (string \<times> (string \<times> pyval) list) list" where
  "fetch_raw fetch_json =
     map (\<lambda>su. (fst su, map (\<lambda>fu. (fst fu, fetch_feed fetch_json (snd fu))) (snd su))) FEEDS"

definition fetch_errors :: "fetcher \<Rightarrow> string list" where
  "fetch_errors fetch_json =
     concat (map (\<lambda>su. concat (map (feed_error fetch_json (fst su)) (snd su))) FEEDS)"

text \<open>\<^verbatim>\<open>raw[state][feed_type]\<close>.\<close>

definition raw_at ::
  "(string \<times> (string \<times> pyval) list) list \<Rightarrow> string \<Rightarrow> string \<Rightarrow> pyerr + pyval" where
  "raw_at raw state_name feed_type =
     (case map_of raw state_name of
        None \<Rightarrow> Inl KeyError
      | Some fs \<Rightarrow> (case map_of fs feed_type of None \<Rightarrow> Inl KeyError | Some v \<Rightarrow> Inr v))"

text \<open>\<^verbatim>\<open>x if isinstance(x, list) else []\<close>.\<close>

fun list_or_empty :: "pyval \<Rightarrow> pyval" where
  "list_or_empty (PList xs) = PList xs"
| "list_or_empty _ = PList []"

subsection \<open>Parsing, stamping and the exit status\<close>

definition parse_state ::
  "(pyval \<Rightarrow> pyerr + string) \<Rightarrow> (string \<times> (string \<times> pyval) list) list \<Rightarrow> string
     \<Rightarrow> pyerr + row list" where
  "parse_state py_repr raw state_name =
     bind_res (raw_at raw state_name ''static'') (\<lambda>st.
     bind_res (raw_at raw state_name ''dynamic'') (\<lambda>dy.
       parse_standard py_repr state_name (list_or_empty st) (list_or_empty dy)))"

definition parse_all ::
  "(pyval \<Rightarrow> pyerr + string) \<Rightarrow> (string \<times> (string \<times> pyval) list) list
     \<Rightarrow> pyerr + row list" where
  "parse_all py_repr raw =
     bind_res (parse_state py_repr raw ''Illinois'') (\<lambda>il.
     bind_res (parse_state py_repr raw ''Kentucky'') (\<lambda>ky.
     bind_res (parse_state py_repr raw ''Minnesota'') (\<lambda>mn.
     bind_res (raw_at raw ''Indiana'' ''static'') (\<lambda>ist.
       if truthy ist then
         bind_res (raw_at raw ''Indiana'' ''dynamic'') (\<lambda>idy.
         bind_res (parse_indiana ist idy) (\<lambda>ind. Inr (il @ ky @ mn @ ind)))
       else Inr (il @ ky @ mn)))))"

record stamped_row = row +
  poll_utc :: pyval

text \<open>\<^verbatim>\<open>row['poll_utc'] = poll_str\<close>.\<close>

definition stamp :: "string \<Rightarrow> row \<Rightarrow> stamped_row" where
  "stamp poll_str r = row.extend r (stamped_row.fields (PStr poll_str))"

text \<open>The dictionary built for the sink: every key of the row, read back.\<close>

definition bq_row :: "stamped_row \<Rightarrow> stamped_row" where
  "bq_row r =
     \<lparr> state = state r, site_id = site_id r, name = name r, highway = highway r,
       direction = direction r, latitude = latitude r, longitude = longitude r,
       capacity = capacity r, available_spaces = available_spaces r, trend = trend r,
       is_open = is_open r, trust_data = trust_data r,
       source_timestamp = source_timestamp r, poll_utc = poll_utc r \<rparr>"

text \<open>
  The result of a run: the exit status with the rows it produced, or the exception that
  left \<^verbatim>\<open>main\<close>. The sink \<^verbatim>\<open>insert_rows_json\<close> returns its list of row errors or raises.
\<close>

datatype run_result = Exited nat "stamped_row list" | Uncaught pyerr

definition main ::
  "(pyval \<Rightarrow> pyerr + string) \<Rightarrow> datetime \<Rightarrow> fetcher \<Rightarrow> (stamped_row list \<Rightarrow> pyerr + 'e list)
     \<Rightarrow> run_result" where
  "main py_repr poll_time fetch_json insert_rows_json =
     (let poll_str = strftime poll_time;
          raw = fetch_raw fetch_json;
          errors = fetch_errors fetch_json
      in case parse_all py_repr raw of
           Inl e \<Rightarrow> Uncaught e
         | Inr parsed \<Rightarrow>
             let all_rows = map (stamp poll_str) parsed in
             if all_rows = [] then Exited (if errors \<noteq> [] then 1 else 0) all_rows
             else
               (case insert_rows_json (map bq_row all_rows) of
                  Inl e \<Rightarrow> Uncaught e
                | Inr bq_errors \<Rightarrow>
                    if bq_errors \<noteq> [] then Exited 1 all_rows else Exited 0 all_rows))"

section \<open>Properties of field values\<close>

text \<open>One of the three strings \<^verbatim>\<open>"True"\<close>, \<^verbatim>\<open>"False"\<close>, \<^verbatim>\<open>""\<close>.\<close>

definition tri_state :: "pyval \<Rightarrow> bool" where
  "tri_state v = (v = PStr ''True'' \<or> v = PStr ''False'' \<or> v = PStr '''')"

text \<open>An integer or null.\<close>

fun int_or_null :: "pyval \<Rightarrow> bool" where
  "int_or_null PNone = True"
| "int_or_null (PInt n) = True"
| "int_or_null _ = False"

text \<open>A finite number or null.\<close>

fun number_or_null :: "pyval \<Rightarrow> bool" where
  "number_or_null PNone = True"
| "number_or_null (PInt n) = True"
| "number_or_null (PFloat (FFinite q)) = True"
| "number_or_null (PFloat FNegZero) = True"
| "number_or_null _ = False"

section \<open>Example inputs\<close>

text \<open>
  The examples below never take the text of a float, a list or a dictionary; there the
  parameter \<open>py_repr\<close> is this function.
\<close>

definition example_repr :: "pyval \<Rightarrow> pyerr + string" where
  "example_repr v = Inr []"

text \<open>
  A feature collection of two features: the first reports the sentinel \<open>-1\<close> and a
  coordinate pair, the second reports \<open>0\<close> and a single coordinate.
\<close>

definition example_geojson :: pyval where
  "example_geojson =
     PDict [(''type'', PStr ''FeatureCollection''),
            (''features'', PList [
               PDict [(''id'', PInt 7),
                      (''properties'',
                         PDict [(''site_area_label'', PStr ''NB-I65''),
                                (''site_area_status'', PStr ''open''),
                                (''tpims'', PDict [(''capacity'', PStr ''40''),
                                                   (''spaces_available'', PInt (- 1))])]),
                      (''geometry'',
                         PDict [(''coordinates'', PList [PFloat (FFinite (- 861 / 10)),
                                                         PFloat (FFinite (397 / 10))])])],
               PDict [(''properties'',
                         PDict [(''site_label'', PStr ''IN2''),
                                (''site_area_status'', PStr ''closed''),
                                (''tpims'', PDict [(''spaces_available'', PStr ''0'')])]),
                      (''geometry'',
                         PDict [(''coordinates'', PList [PFloat (FFinite (- 86))])])]])]"

definition example_indiana_rows :: "row list" where
  "example_indiana_rows =
     [\<lparr> state = PStr ''Indiana'', site_id = PInt 7, name = PStr '''', highway = PStr '''',
         direction = PStr ''NB'', latitude = PFloat (FFinite (397 / 10)),
         longitude = PFloat (FFinite (- 861 / 10)), capacity = PInt 40,
         available_spaces = PNone, trend = PStr '''', is_open = PStr ''True'',
         trust_data = PStr '''', source_timestamp = PStr '''' \<rparr>,
      \<lparr> state = PStr ''Indiana'', site_id = PStr ''IN2'', name = PStr '''',
         highway = PStr '''', direction = PStr '''', latitude = PNone, longitude = PNone,
         capacity = PNone, available_spaces = PInt 0, trend = PStr '''',
         is_open = PStr ''False'', trust_data = PStr '''', source_timestamp = PStr '''' \<rparr>]"

text \<open>
  A static list of two sites and a dynamic list with a record for the first site only.
  The first site publishes its location as a one-element list, the second as a mapping
  whose latitude is a text; the dynamic record reports \<open>-3\<close> free spaces and a null
  \<^verbatim>\<open>open\<close> field.
\<close>

definition example_static :: pyval where
  "example_static =
     PList [PDict [(''siteId'', PStr ''A1''), (''name'', PStr ''Rest Stop''),
                   (''capacity'', PStr ''50''),
                   (''location'', PList [PDict [(''latitude'', PFloat (FFinite (83 / 2))),
                                                (''longitude'', PFloat (FFinite (- 88)))]])],
            PDict [(''siteId'', PStr ''B2''),
                   (''location'', PDict [(''latitude'', PStr ''n/a'')])]]"

definition example_dynamic :: pyval where
  "example_dynamic =
     PList [PDict [(''siteId'', PStr ''A1''), (''reportedAvailable'', PInt (- 3)),
                   (''open'', PNone), (''trustData'', PBool True)]]"

definition example_lookup :: lookup where
  "example_lookup =
     [(PStr ''A1'',
       PDict [(''siteId'', PStr ''A1''), (''reportedAvailable'', PInt (- 3)),
              (''open'', PNone), (''trustData'', PBool True)])]"

definition example_standard_rows :: "row list" where
  "example_standard_rows =
     [\<lparr> state = PStr ''Illinois'', site_id = PStr ''A1'', name = PStr ''Rest Stop'',
         highway = PStr '''', direction = PStr '''', latitude = PFloat (FFinite (83 / 2)),
         longitude = PFloat (FFinite (- 88)), capacity = PInt 50,
         available_spaces = PInt (- 3), trend = PStr '''', is_open = PStr ''None'',
         trust_data = PStr ''True'', source_timestamp = PStr '''' \<rparr>,
      \<lparr> state = PStr ''Illinois'', site_id = PStr ''B2'', name = PStr '''',
         highway = PStr '''', direction = PStr '''', latitude = PStr ''n/a'',
         longitude = PNone, capacity = PNone, available_spaces = PNone, trend = PStr '''',
         is_open = PStr '''', trust_data = PStr '''', source_timestamp = PStr '''' \<rparr>]"

text \<open>A static list whose only site publishes its location as a list holding a null.\<close>

definition example_static_null_location :: pyval where
  "example_static_null_location =
     PList [PDict [(''siteId'', PStr ''A1''), (''location'', PList [PNone])]]"

text \<open>
  A network on which only the two Illinois feeds answer, one on which nothing answers,
  a sink that accepts every row, and a reading of the clock.
\<close>

definition example_fetch :: fetcher where
  "example_fetch url =
     (if url = ''https://truckparking.travelmidwest.com/TPIMS_Static.json'' then Inr example_static
      else if url = ''https://truckparking.travelmidwest.com/TPIMS_Dynamic.json''
      then Inr example_dynamic
      else Inl ''timed out'')"

definition failing_fetch :: fetcher where
  "failing_fetch url = Inl ''timed out''"

definition accepting_sink :: "stamped_row list \<Rightarrow> pyerr + string list" where
  "accepting_sink rows = Inr []"

definition example_poll_time :: datetime where
  "example_poll_time = \<lparr> year = 2026, month = 11, day = 4, hour = 3, minute = 0, second = 59 \<rparr>"

definition rejecting_sink :: "stamped_row list \<Rightarrow> pyerr + string list" where
  "rejecting_sink rows = Inr [''row 0: no such field'']"

section \<open>Basic facts\<close>

lemma bind_res_Inl [simp]: "bind_res (Inl e) f = Inl e"
  by (simp add: bind_res_def)

lemma bind_res_Inr [simp]: "bind_res (Inr x) f = f x"
  by (simp add: bind_res_def)

lemma bind_res_InrE:
  assumes "bind_res m f = Inr y"
  obtains x where "m = Inr x" and "f x = Inr y"
  using assms by (cases m) simp_all

lemma py_get_InrE:
  assumes "py_get v k dflt = Inr x"
  obtains d where "v = PDict d" and "dict_get d k dflt = x"
  using assms by (cases v) (auto simp: py_get_def)

lemma py_get_dict [simp]: "py_get (PDict d) k dflt = Inr (dict_get d k dflt)"
  by (simp add: py_get_def)

lemma collect_rows_length: "collect_rows f xs = Inr rs \<Longrightarrow> length rs = length xs"
proof (induction xs arbitrary: rs)
  case Nil
  then show ?case by simp
next
  case (Cons x xs)
  from Cons.prems obtain r rs' where "f x = Inr r" "collect_rows f xs = Inr rs'" "rs = r # rs'"
    by (auto elim!: bind_res_InrE)
  with Cons.IH show ?case by simp
qed

lemma collect_rows_nth:
  "collect_rows f xs = Inr rs \<Longrightarrow> i < length xs \<Longrightarrow> f (xs ! i) = Inr (rs ! i)"
proof (induction xs arbitrary: rs i)
  case Nil
  then show ?case by simp
next
  case (Cons x xs)
  from Cons.prems(1) obtain r rs'
    where *: "f x = Inr r" "collect_rows f xs = Inr rs'" "rs = r # rs'"
    by (auto elim!: bind_res_InrE)
  show ?case
  proof (cases i)
    case 0
    with * show ?thesis by simp
  next
    case (Suc j)
    with Cons.prems(2) have "j < length xs" by simp
    with Cons.IH * Suc show ?thesis by simp
  qed
qed

subsection \<open>What a returned row of \<^verbatim>\<open>parse_indiana\<close> holds\<close>

lemma parse_indiana_rows:
  assumes "parse_indiana static_data dynamic_data = Inr rows"
    and "py_iter (features_of static_data) = Inr feats"
  shows "length rows = length feats"
    and "i < length feats \<Longrightarrow> indiana_row (feats ! i) = Inr (rows ! i)"
proof -
  from assms have c: "collect_rows indiana_row feats = Inr rows"
    by (simp add: parse_indiana_def)
  show "length rows = length feats"
    by (rule collect_rows_length [OF c])
  show "i < length feats \<Longrightarrow> indiana_row (feats ! i) = Inr (rows ! i)"
    by (rule collect_rows_nth [OF c])
qed

lemma parse_indiana_iter:
  assumes "parse_indiana static_data dynamic_data = Inr rows"
  obtains feats where "py_iter (features_of static_data) = Inr feats"
  using assms unfolding parse_indiana_def by (auto elim: bind_res_InrE)

lemma indiana_row_fields:
  assumes "indiana_row feat = Inr r"
  shows "\<exists>f p g t. feat = PDict f
    \<and> dict_get f ''properties'' (PDict []) = PDict p
    \<and> dict_get f ''geometry'' (PDict []) = PDict g
    \<and> dict_get p ''tpims'' (PDict []) = PDict t
    \<and> int_or_none (dict_get t ''capacity'' PNone) = Inr (capacity r)
    \<and> nonneg_int_or_none (dict_get t ''spaces_available'' PNone) = Inr (available_spaces r)
    \<and> is_open r = status_to_open (dict_get p ''site_area_status'' (PStr ''''))
    \<and> coord_at (dict_get g ''coordinates'' (PList [PNone, PNone])) 1 = Inr (latitude r)
    \<and> coord_at (dict_get g ''coordinates'' (PList [PNone, PNone])) 0 = Inr (longitude r)
    \<and> trend r = PStr '''' \<and> trust_data r = PStr '''' \<and> state r = PStr ''Indiana''"
  using assms unfolding indiana_row_def
  apply (elim bind_res_InrE py_get_InrE)
  apply clarsimp
  done

lemma example_geojson_features:
  "py_iter (features_of example_geojson) =
     Inr [PDict [(''id'', PInt 7),
                 (''properties'',
                    PDict [(''site_area_label'', PStr ''NB-I65''),
                           (''site_area_status'', PStr ''open''),
                           (''tpims'', PDict [(''capacity'', PStr ''40''),
                                              (''spaces_available'', PInt (- 1))])]),
                 (''geometry'',
                    PDict [(''coordinates'', PList [PFloat (FFinite (- 861 / 10)),
                                                    PFloat (FFinite (397 / 10))])])],
          PDict [(''properties'',
                    PDict [(''site_label'', PStr ''IN2''),
                           (''site_area_status'', PStr ''closed''),
                           (''tpims'', PDict [(''spaces_available'', PStr ''0'')])]),
                 (''geometry'',
                    PDict [(''coordinates'', PList [PFloat (FFinite (- 86))])])]]"
  by (simp add: example_geojson_def features_of_def dict_get_def)

lemma str_to_int_zero: "str_to_int ''0'' = Inr 0"
  by (simp add: str_to_int_def strip_space_def int_space_def parse_digits_def digit_val_def
      int_max_str_digits_def)

lemma example_geojson_rows: "parse_indiana example_geojson PNone = Inr example_indiana_rows"
  by (simp add: example_geojson_def example_indiana_rows_def parse_indiana_def features_of_def
      dict_get_def indiana_row_def int_or_none_def nonneg_int_or_none_def str_to_int_def
      strip_space_def int_space_def parse_digits_def digit_val_def int_max_str_digits_def
      status_to_open_def direction_of_def coord_at_def)

subsection \<open>What a returned row of \<^verbatim>\<open>parse_standard\<close> holds\<close>

lemma parse_standard_parts:
  assumes "parse_standard py_repr state_name static_list dynamic_list = Inr rows"
  obtains ds tbl ss where "py_iter (py_or dynamic_list (PList [])) = Inr ds"
    and "build_lookup [] ds = Inr tbl"
    and "py_iter (py_or static_list (PList [])) = Inr ss"
  using assms unfolding parse_standard_def by (auto elim!: bind_res_InrE)

lemma parse_standard_rows:
  assumes "parse_standard py_repr state_name static_list dynamic_list = Inr rows"
    and "py_iter (py_or dynamic_list (PList [])) = Inr ds"
    and "build_lookup [] ds = Inr tbl"
    and "py_iter (py_or static_list (PList [])) = Inr ss"
  shows "length rows = length ss"
    and "i < length ss \<Longrightarrow> standard_row py_repr state_name tbl (ss ! i) = Inr (rows ! i)"
proof -
  from assms have c: "collect_rows (standard_row py_repr state_name tbl) ss = Inr rows"
    by (simp add: parse_standard_def)
  show "length rows = length ss"
    by (rule collect_rows_length [OF c])
  show "i < length ss \<Longrightarrow> standard_row py_repr state_name tbl (ss ! i) = Inr (rows ! i)"
    by (rule collect_rows_nth [OF c])
qed

lemma standard_row_fields:
  assumes "standard_row py_repr state_name tbl s = Inr r"
  shows "\<exists>sd dd ld op td. s = PDict sd
    \<and> lookup_get tbl (dict_get sd ''siteId'' (PStr '''')) (PDict []) = Inr (PDict dd)
    \<and> normalize_loc (dict_get sd ''location'' (PDict [])) = PDict ld
    \<and> int_or_none (dict_get sd ''capacity'' (dict_get dd ''capacity'' PNone)) = Inr (capacity r)
    \<and> int_or_none (dict_get dd ''reportedAvailable'' PNone) = Inr (available_spaces r)
    \<and> latitude r = dict_get ld ''latitude'' PNone
    \<and> longitude r = dict_get ld ''longitude'' PNone
    \<and> py_str py_repr (dict_get dd ''open'' (PStr '''')) = Inr op \<and> is_open r = PStr op
    \<and> py_str py_repr (dict_get dd ''trustData'' (PStr '''')) = Inr td \<and> trust_data r = PStr td
    \<and> site_id r = dict_get sd ''siteId'' (PStr '''')
    \<and> state r = PStr state_name"
  using assms unfolding standard_row_def Let_def
  apply (elim bind_res_InrE py_get_InrE)
  apply clarsimp
  done

lemma int_or_none_result: "int_or_none v = Inr x \<Longrightarrow> int_or_null x"
  by (auto simp: int_or_none_def split: sum.splits if_splits)

lemma nonneg_int_or_none_result: "nonneg_int_or_none v = Inr x \<Longrightarrow> int_or_null x"
  by (auto simp: nonneg_int_or_none_def split: sum.splits if_splits)

lemma int_or_none_cases:
  "int_or_none v = Inr x \<Longrightarrow>
     x = (case py_int v of Inr n \<Rightarrow> PInt n | Inl e \<Rightarrow> PNone) \<and> py_int v \<noteq> Inl OverflowError"
  by (auto simp: int_or_none_def split: sum.splits if_splits)

lemma lookup_find_None_iff:
  "lookup_find tbl k = None \<longleftrightarrow> (\<forall>e\<in>set tbl. \<not> key_eq (fst e) k)"
  by (induction tbl) (auto split: if_splits)

lemma lookup_set_keys:
  "e \<in> set (lookup_set tbl k v) \<Longrightarrow> fst e = k \<or> fst e \<in> fst ` set tbl"
  by (induction tbl) (force split: if_splits)+

lemma build_lookup_keys:
  "build_lookup tbl ds = Inr tbl' \<Longrightarrow> e \<in> set tbl' \<Longrightarrow>
     fst e \<in> fst ` set tbl \<or> (\<exists>d\<in>set ds. py_get d ''siteId'' (PStr '''') = Inr (fst e))"
proof (induction ds arbitrary: tbl)
  case Nil
  then show ?case by auto
next
  case (Cons d ds)
  from Cons.prems(1) obtain k where k: "py_get d ''siteId'' (PStr '''') = Inr k"
    and b: "build_lookup (lookup_set tbl k d) ds = Inr tbl'"
    by (auto elim!: bind_res_InrE split: if_splits)
  from Cons.IH [OF b Cons.prems(2)]
  consider (old) "fst e \<in> fst ` set (lookup_set tbl k d)"
    | (new) "\<exists>d'\<in>set ds. py_get d' ''siteId'' (PStr '''') = Inr (fst e)"
    by blast
  then show ?case
  proof cases
    case old
    then obtain e' where e': "e' \<in> set (lookup_set tbl k d)" "fst e' = fst e"
      by auto
    from lookup_set_keys [OF e'(1)] e'(2) k show ?thesis
      by auto
  next
    case new
    then show ?thesis by auto
  qed
qed

lemma build_lookup_no_match:
  assumes "build_lookup [] ds = Inr tbl"
    and "\<forall>d\<in>set ds. \<forall>k. py_get d ''siteId'' (PStr '''') = Inr k \<longrightarrow> \<not> key_eq k sid"
  shows "lookup_find tbl sid = None"
  unfolding lookup_find_None_iff
proof
  fix e assume "e \<in> set tbl"
  from build_lookup_keys [OF assms(1) this] obtain d
    where "d \<in> set ds" "py_get d ''siteId'' (PStr '''') = Inr (fst e)"
    by auto
  with assms(2) show "\<not> key_eq (fst e) sid" by blast
qed

lemma example_static_iter:
  "py_iter (py_or example_static (PList [])) =
     Inr [PDict [(''siteId'', PStr ''A1''), (''name'', PStr ''Rest Stop''),
                 (''capacity'', PStr ''50''),
                 (''location'', PList [PDict [(''latitude'', PFloat (FFinite (83 / 2))),
                                              (''longitude'', PFloat (FFinite (- 88)))]])],
          PDict [(''siteId'', PStr ''B2''),
                 (''location'', PDict [(''latitude'', PStr ''n/a'')])]]"
  by (simp add: example_static_def py_or_def)

lemma example_dynamic_iter:
  "py_iter (py_or example_dynamic (PList [])) =
     Inr [PDict [(''siteId'', PStr ''A1''), (''reportedAvailable'', PInt (- 3)),
                 (''open'', PNone), (''trustData'', PBool True)]]"
  by (simp add: example_dynamic_def py_or_def)

lemma example_dynamic_lookup:
  "build_lookup [] [PDict [(''siteId'', PStr ''A1''), (''reportedAvailable'', PInt (- 3)),
                           (''open'', PNone), (''trustData'', PBool True)]] = Inr example_lookup"
  by (simp add: example_lookup_def dict_get_def)

lemma str_to_int_fifty: "str_to_int ''50'' = Inr 50"
  by (simp add: str_to_int_def strip_space_def int_space_def parse_digits_def digit_val_def
      int_max_str_digits_def)

lemma example_standard_run:
  "parse_standard example_repr ''Illinois'' example_static example_dynamic =
     Inr example_standard_rows"
  by (simp add: parse_standard_def example_static_iter example_dynamic_iter
      example_dynamic_lookup example_lookup_def example_standard_rows_def standard_row_def
      lookup_get_def key_eq_def dict_get_def int_or_none_def str_to_int_fifty)

lemma example_null_location_run:
  "parse_standard example_repr ''Illinois'' example_static_null_location (PList []) =
     Inl AttributeError"
  by (simp add: parse_standard_def example_static_null_location_def py_or_def standard_row_def
      lookup_get_def dict_get_def int_or_none_def py_get_def)

subsection \<open>The poll time and the run\<close>

lemma digit_cases:
  "d < (10::nat) \<Longrightarrow> d = 0 \<or> d = 1 \<or> d = 2 \<or> d = 3 \<or> d = 4 \<or> d = 5 \<or> d = 6 \<or> d = 7 \<or> d = 8 \<or> d = 9"
  by arith

lemma digit_char_is_digit: "d < 10 \<Longrightarrow> is_digit (digit_char d)"
  by (drule digit_cases) (auto simp: is_digit_def digit_val_def digit_char_def)

lemma nat_digits_one: "n < 10 \<Longrightarrow> nat_digits n = [digit_char n]"
  by (simp add: nat_digits.simps)

lemma nat_digits_two:
  "10 \<le> n \<Longrightarrow> n < 100 \<Longrightarrow> nat_digits n = [digit_char (n div 10), digit_char (n mod 10)]"
  by (subst nat_digits.simps) (simp add: nat_digits_one)

lemma nat_digits_three:
  "100 \<le> n \<Longrightarrow> n < 1000 \<Longrightarrow>
     nat_digits n = [digit_char (n div 100), digit_char (n div 10 mod 10), digit_char (n mod 10)]"
  by (subst nat_digits.simps) (simp add: nat_digits_two div_mult2_eq [symmetric])

lemma nat_digits_four:
  "1000 \<le> n \<Longrightarrow> n < 10000 \<Longrightarrow>
     nat_digits n = [digit_char (n div 1000), digit_char (n div 100 mod 10),
                     digit_char (n div 10 mod 10), digit_char (n mod 10)]"
  by (subst nat_digits.simps) (simp add: nat_digits_three div_mult2_eq [symmetric])

lemma pad2_digits: "n < 100 \<Longrightarrow> pad2 n = [digit_char (n div 10), digit_char (n mod 10)]"
  by (cases "n < 10") (simp_all add: pad2_def nat_digits_one nat_digits_two digit_char_def)

lemma strftime_shape:
  assumes "valid_datetime t"
  shows "poll_utc_shape (strftime t)"
proof -
  from assms have y: "1000 \<le> year t" "year t < 10000"
    and r: "month t < 100" "day t < 100" "hour t < 100" "minute t < 100" "second t < 100"
    by (simp_all add: valid_datetime_def)
  have d: "\<And>n. is_digit (digit_char (n mod 10))"
    by (simp add: digit_char_is_digit)
  have d1: "\<And>n. n < 100 \<Longrightarrow> is_digit (digit_char (n div 10))"
    by (simp add: digit_char_is_digit)
  from y have d2: "is_digit (digit_char (year t div 1000))"
    by (simp add: digit_char_is_digit)
  show ?thesis
    using d d1 d2 r
    by (simp add: strftime_def poll_utc_shape_def nat_digits_four [OF y] pad2_digits)
qed

lemma poll_utc_stamp: "poll_utc (stamp s r) = PStr s"
  by (simp add: stamp_def row.defs stamped_row.defs)

lemma main_rows:
  assumes "main py_repr t fetch_json sink = Exited code rows"
  shows "\<exists>parsed. parse_all py_repr (fetch_raw fetch_json) = Inr parsed
     \<and> rows = map (stamp (strftime t)) parsed"
  using assms by (auto simp: main_def Let_def split: sum.splits if_splits)

lemma list_or_empty_examples:
  "list_or_empty example_static = example_static"
  "list_or_empty example_dynamic = example_dynamic"
  by (simp_all add: example_static_def example_dynamic_def)

lemma parse_standard_empty: "parse_standard py_repr state_name (PList []) (PList []) = Inr []"
  by (simp add: parse_standard_def py_or_def)

lemma example_fetch_parsed: "parse_all example_repr (fetch_raw example_fetch) = Inr example_standard_rows"
  by (simp add: parse_all_def parse_state_def fetch_raw_def FEEDS_def fetch_feed_def
      example_fetch_def raw_at_def list_or_empty_examples example_standard_run
      parse_standard_empty)

lemma failing_fetch_parsed: "parse_all example_repr (fetch_raw failing_fetch) = Inr []"
  by (simp add: parse_all_def parse_state_def fetch_raw_def FEEDS_def fetch_feed_def
      failing_fetch_def raw_at_def parse_standard_empty)

lemma failing_fetch_errors: "fetch_errors failing_fetch \<noteq> []"
  by (simp add: fetch_errors_def FEEDS_def feed_error_def failing_fetch_def)

lemma example_poll_str: "strftime example_poll_time = ''2026-11-04T03:00:59Z''"
  by (simp add: strftime_def example_poll_time_def nat_digits_four pad2_digits digit_char_def)

lemma example_fetch_errors: "fetch_errors example_fetch \<noteq> []"
  by (simp add: fetch_errors_def FEEDS_def feed_error_def example_fetch_def)

section \<open>The claims\<close>

text \<open>
  C10. The rows of \<^verbatim>\<open>parse_indiana\<close>, and the exception it raises when it raises one, do
  not depend on its dynamic payload: any two dynamic payloads give the same result for
  the same static payload.
\<close>

theorem parse_indiana_ignores_dynamic:
  "parse_indiana static_data dynamic_a = parse_indiana static_data dynamic_b"
  by (simp add: parse_indiana_def)

text \<open>
  C3. In a run of \<^verbatim>\<open>parse_indiana\<close> that returns its rows, take the feature at position
  \<open>i\<close> whose \<^verbatim>\<open>spaces_available\<close> is converted by \<^verbatim>\<open>int\<close> to \<open>n\<close>. Its row is the
  row at position \<open>i\<close>, and \<^verbatim>\<open>available_spaces\<close> is null when \<open>n\<close> is negative and
  \<open>n\<close> otherwise; so \<open>-1\<close> gives null and \<open>0\<close> gives \<open>0\<close>.
\<close>

theorem indiana_available_sentinel:
  assumes "parse_indiana static_data dynamic_data = Inr rows"
    and "py_iter (features_of static_data) = Inr feats"
    and "i < length feats"
    and "py_get (feats ! i) ''properties'' (PDict []) = Inr props"
    and "py_get props ''tpims'' (PDict []) = Inr tpims"
    and "py_get tpims ''spaces_available'' PNone = Inr v"
    and "py_int v = Inr n"
  shows "i < length rows \<and> available_spaces (rows ! i) = (if n < 0 then PNone else PInt n)"
proof -
  have len: "length rows = length feats"
    by (rule parse_indiana_rows(1) [OF assms(1,2)])
  have "indiana_row (feats ! i) = Inr (rows ! i)"
    by (rule parse_indiana_rows(2) [OF assms(1,2,3)])
  from indiana_row_fields [OF this] obtain f p t where
    f: "feats ! i = PDict f" and p: "dict_get f ''properties'' (PDict []) = PDict p"
    and t: "dict_get p ''tpims'' (PDict []) = PDict t"
    and a: "nonneg_int_or_none (dict_get t ''spaces_available'' PNone) = Inr (available_spaces (rows ! i))"
    by blast
  from assms(4) f p have "props = PDict p" by simp
  with assms(5) t have "tpims = PDict t" by simp
  with assms(6) have "v = dict_get t ''spaces_available'' PNone" by simp
  with a assms(7) have "available_spaces (rows ! i) = (if n < 0 then PNone else PInt n)"
    by (simp add: nonneg_int_or_none_def)
  with len assms(3) show ?thesis by simp
qed

theorem indiana_available_sentinel_witness:
  "parse_indiana example_geojson PNone = Inr example_indiana_rows
   \<and> py_int (PInt (- 1)) = Inr (- 1) \<and> py_int (PStr ''0'') = Inr 0
   \<and> available_spaces (example_indiana_rows ! 0) = PNone
   \<and> available_spaces (example_indiana_rows ! 1) = PInt 0"
proof -
  let ?t0 = "PDict [(''capacity'', PStr ''40''), (''spaces_available'', PInt (- 1))]"
  let ?t1 = "PDict [(''spaces_available'', PStr ''0'')]"
  note run = example_geojson_rows example_geojson_features
  have z: "py_int (PStr ''0'') = Inr 0"
    by (simp add: str_to_int_zero)
  have a: "available_spaces (example_indiana_rows ! 0) = PNone"
    using indiana_available_sentinel [OF run, of 0 _ ?t0 "PInt (- 1)" "- 1"]
    by (simp add: dict_get_def)
  have b: "available_spaces (example_indiana_rows ! 1) = PInt 0"
    using indiana_available_sentinel [OF run, of 1 _ ?t1 "PStr ''0''" 0] z
    by (simp add: dict_get_def)
  from a b z example_geojson_rows show ?thesis
    by simp
qed

text \<open>
  C8. In a run of \<^verbatim>\<open>parse_indiana\<close> that returns its rows, take the feature at position
  \<open>i\<close> whose geometry holds the coordinates list \<open>cs\<close> (the list \<^verbatim>\<open>[None, None]\<close> when the
  geometry has no coordinates). With fewer than two elements the row's latitude and
  longitude are both null; otherwise the longitude is element 0 and the latitude is
  element 1.
\<close>

theorem indiana_coordinates:
  assumes "parse_indiana static_data dynamic_data = Inr rows"
    and "py_iter (features_of static_data) = Inr feats"
    and "i < length feats"
    and "py_get (feats ! i) ''geometry'' (PDict []) = Inr geo"
    and "py_get geo ''coordinates'' (PList [PNone, PNone]) = Inr (PList cs)"
  shows "i < length rows
    \<and> (length cs < 2 \<longrightarrow> latitude (rows ! i) = PNone \<and> longitude (rows ! i) = PNone)
    \<and> (2 \<le> length cs \<longrightarrow> longitude (rows ! i) = cs ! 0 \<and> latitude (rows ! i) = cs ! 1)"
proof -
  have len: "length rows = length feats"
    by (rule parse_indiana_rows(1) [OF assms(1,2)])
  have "indiana_row (feats ! i) = Inr (rows ! i)"
    by (rule parse_indiana_rows(2) [OF assms(1,2,3)])
  from indiana_row_fields [OF this] obtain f g where
    f: "feats ! i = PDict f" and g: "dict_get f ''geometry'' (PDict []) = PDict g"
    and lat: "coord_at (dict_get g ''coordinates'' (PList [PNone, PNone])) 1 = Inr (latitude (rows ! i))"
    and lon: "coord_at (dict_get g ''coordinates'' (PList [PNone, PNone])) 0 = Inr (longitude (rows ! i))"
    by blast
  from assms(4) f g have "geo = PDict g" by simp
  with assms(5) have c: "dict_get g ''coordinates'' (PList [PNone, PNone]) = PList cs" by simp
  from lat c have 1: "latitude (rows ! i) = (if 2 \<le> length cs then cs ! 1 else PNone)"
    by (auto simp: coord_at_def split: if_splits)
  from lon c have 2: "longitude (rows ! i) = (if 2 \<le> length cs then cs ! 0 else PNone)"
    by (auto simp: coord_at_def split: if_splits)
  from len assms(3) 1 2 show ?thesis by simp
qed

theorem indiana_coordinates_witness:
  "parse_indiana example_geojson PNone = Inr example_indiana_rows
   \<and> longitude (example_indiana_rows ! 0) = PFloat (FFinite (- 861 / 10))
   \<and> latitude (example_indiana_rows ! 0) = PFloat (FFinite (397 / 10))
   \<and> latitude (example_indiana_rows ! 1) = PNone
   \<and> longitude (example_indiana_rows ! 1) = PNone"
proof -
  let ?c0 = "[PFloat (FFinite (- 861 / 10)), PFloat (FFinite (397 / 10))]"
  let ?c1 = "[PFloat (FFinite (- 86))]"
  note run = example_geojson_rows example_geojson_features
  have a: "longitude (example_indiana_rows ! 0) = PFloat (FFinite (- 861 / 10))
      \<and> latitude (example_indiana_rows ! 0) = PFloat (FFinite (397 / 10))"
    using indiana_coordinates [OF run, of 0 "PDict [(''coordinates'', PList ?c0)]" ?c0]
    by (simp add: dict_get_def)
  have b: "latitude (example_indiana_rows ! 1) = PNone
      \<and> longitude (example_indiana_rows ! 1) = PNone"
    using indiana_coordinates [OF run, of 1 "PDict [(''coordinates'', PList ?c1)]" ?c1]
    by (simp add: dict_get_def)
  from a b example_geojson_rows show ?thesis
    by simp
qed


text \<open>
  C1, as the code has it. Every row of \<^verbatim>\<open>parse_indiana\<close> has \<^verbatim>\<open>is_open\<close> among
  \<^verbatim>\<open>"True"\<close>, \<^verbatim>\<open>"False"\<close> and \<^verbatim>\<open>""\<close>. Every row of \<^verbatim>\<open>parse_standard\<close> has as
  \<^verbatim>\<open>is_open\<close> the text \<^verbatim>\<open>str\<close> gives for the \<^verbatim>\<open>open\<close> field of the dynamic record
  found for the row's site (the empty string when there is no record or no field); it
  is one of the three strings when that field is a boolean, the empty string or absent.
\<close>

theorem is_open_values:
  "(parse_indiana static_data dynamic_data = Inr irows \<longrightarrow>
      (\<forall>r\<in>set irows. tri_state (is_open r)))
   \<and> (parse_standard py_repr state_name static_list dynamic_list = Inr rows \<longrightarrow>
       py_iter (py_or dynamic_list (PList [])) = Inr ds \<longrightarrow>
       build_lookup [] ds = Inr tbl \<longrightarrow>
       (\<forall>r\<in>set rows. \<exists>dyn txt.
          lookup_get tbl (site_id r) (PDict []) = Inr (PDict dyn)
          \<and> py_str py_repr (dict_get dyn ''open'' (PStr '''')) = Inr txt
          \<and> is_open r = PStr txt
          \<and> (dict_get dyn ''open'' (PStr '''') \<in> {PBool True, PBool False, PStr ''''} \<longrightarrow>
               tri_state (is_open r))))"
proof (intro conjI impI ballI)
  fix r
  assume run: "parse_indiana static_data dynamic_data = Inr irows" and r: "r \<in> set irows"
  from parse_indiana_iter [OF run] obtain feats
    where feats: "py_iter (features_of static_data) = Inr feats" .
  from r obtain i where i: "i < length irows" "irows ! i = r"
    by (auto simp: in_set_conv_nth)
  with parse_indiana_rows [OF run feats] have "indiana_row (feats ! i) = Inr r"
    by auto
  from indiana_row_fields [OF this] obtain p
    where "is_open r = status_to_open (dict_get p ''site_area_status'' (PStr ''''))"
    by blast
  then show "tri_state (is_open r)"
    by (simp add: status_to_open_def tri_state_def)
next
  fix r
  assume run: "parse_standard py_repr state_name static_list dynamic_list = Inr rows"
    and ds: "py_iter (py_or dynamic_list (PList [])) = Inr ds"
    and tbl: "build_lookup [] ds = Inr tbl"
    and r: "r \<in> set rows"
  from parse_standard_parts [OF run] ds tbl obtain ss
    where ss: "py_iter (py_or static_list (PList [])) = Inr ss"
    by auto
  from r obtain i where i: "i < length rows" "rows ! i = r"
    by (auto simp: in_set_conv_nth)
  with parse_standard_rows [OF run ds tbl ss]
  have "standard_row py_repr state_name tbl (ss ! i) = Inr r"
    by auto
  from standard_row_fields [OF this] obtain sd dd tx where
    l: "lookup_get tbl (dict_get sd ''siteId'' (PStr '''')) (PDict []) = Inr (PDict dd)"
    and s: "py_str py_repr (dict_get dd ''open'' (PStr '''')) = Inr tx"
    and o: "is_open r = PStr tx" and sid: "site_id r = dict_get sd ''siteId'' (PStr '''')"
    by blast
  have "dict_get dd ''open'' (PStr '''') \<in> {PBool True, PBool False, PStr ''''} \<longrightarrow>
      tri_state (is_open r)"
    using s o by (auto simp: tri_state_def)
  with l s o sid
  show "\<exists>dyn txt. lookup_get tbl (site_id r) (PDict []) = Inr (PDict dyn)
          \<and> py_str py_repr (dict_get dyn ''open'' (PStr '''')) = Inr txt
          \<and> is_open r = PStr txt
          \<and> (dict_get dyn ''open'' (PStr '''') \<in> {PBool True, PBool False, PStr ''''} \<longrightarrow>
               tri_state (is_open r))"
    by auto
qed

theorem is_open_values_witness:
  "parse_indiana example_geojson PNone = Inr example_indiana_rows
   \<and> tri_state (is_open (example_indiana_rows ! 0))
   \<and> tri_state (is_open (example_indiana_rows ! 1))
   \<and> parse_standard example_repr ''Illinois'' example_static example_dynamic =
       Inr example_standard_rows
   \<and> py_str example_repr PNone = Inr ''None''
   \<and> is_open (example_standard_rows ! 0) = PStr ''None''
   \<and> tri_state (is_open (example_standard_rows ! 1))"
proof -
  note inst = is_open_values [of example_geojson PNone example_indiana_rows example_repr
      "''Illinois''" example_static example_dynamic example_standard_rows _ example_lookup]
  from inst example_geojson_rows
  have a: "\<forall>r\<in>set example_indiana_rows. tri_state (is_open r)"
    by blast
  from inst example_standard_run example_dynamic_iter example_dynamic_lookup
  have b: "\<forall>r\<in>set example_standard_rows. \<exists>dyn txt.
      lookup_get example_lookup (site_id r) (PDict []) = Inr (PDict dyn)
      \<and> py_str example_repr (dict_get dyn ''open'' (PStr '''')) = Inr txt
      \<and> is_open r = PStr txt
      \<and> (dict_get dyn ''open'' (PStr '''') \<in> {PBool True, PBool False, PStr ''''} \<longrightarrow>
           tri_state (is_open r))"
    by blast
  from a have a': "tri_state (is_open (example_indiana_rows ! 0))
      \<and> tri_state (is_open (example_indiana_rows ! 1))"
    by (simp add: example_indiana_rows_def)
  from b have b': "is_open (example_standard_rows ! 0) = PStr ''None''
      \<and> tri_state (is_open (example_standard_rows ! 1))"
    by (simp add: example_standard_rows_def example_lookup_def lookup_get_def key_eq_def
        dict_get_def tri_state_def)
  from a' b' example_geojson_rows example_standard_run show ?thesis
    by simp
qed

text \<open>
  C1 as stated fails: a dynamic record whose \<^verbatim>\<open>open\<close> field is null gives the row the
  \<^verbatim>\<open>is_open\<close> value \<^verbatim>\<open>"None"\<close>.
\<close>

theorem is_open_none_counterexample:
  "parse_standard example_repr ''Illinois'' example_static example_dynamic =
     Inr example_standard_rows
   \<and> is_open (example_standard_rows ! 0) = PStr ''None''
   \<and> \<not> tri_state (is_open (example_standard_rows ! 0))"
  by (simp add: example_standard_run) (simp add: example_standard_rows_def tri_state_def)

text \<open>
  C2, as the code has it. In every row of either normalizer \<^verbatim>\<open>capacity\<close> and
  \<^verbatim>\<open>available_spaces\<close> are an integer or null. In a row of \<^verbatim>\<open>parse_standard\<close> the
  latitude and the longitude are not coerced: they are the values under \<^verbatim>\<open>latitude\<close>
  and \<^verbatim>\<open>longitude\<close> of the site's location mapping as they stand, null when the key
  is absent.
\<close>

theorem numeric_fields:
  "(parse_indiana static_data dynamic_data = Inr irows \<longrightarrow>
      (\<forall>r\<in>set irows. int_or_null (capacity r) \<and> int_or_null (available_spaces r)))
   \<and> (parse_standard py_repr state_name static_list dynamic_list = Inr rows \<longrightarrow>
       py_iter (py_or static_list (PList [])) = Inr ss \<longrightarrow>
       length rows = length ss
       \<and> (\<forall>i<length ss.
            int_or_null (capacity (rows ! i)) \<and> int_or_null (available_spaces (rows ! i))
            \<and> (\<exists>sd ld. ss ! i = PDict sd
                 \<and> normalize_loc (dict_get sd ''location'' (PDict [])) = PDict ld
                 \<and> latitude (rows ! i) = dict_get ld ''latitude'' PNone
                 \<and> longitude (rows ! i) = dict_get ld ''longitude'' PNone)))"
proof (intro conjI impI ballI allI)
  fix r
  assume run: "parse_indiana static_data dynamic_data = Inr irows" and r: "r \<in> set irows"
  from parse_indiana_iter [OF run] obtain feats
    where feats: "py_iter (features_of static_data) = Inr feats" .
  from r obtain i where i: "i < length irows" "irows ! i = r"
    by (auto simp: in_set_conv_nth)
  with parse_indiana_rows [OF run feats] have "indiana_row (feats ! i) = Inr r"
    by auto
  from indiana_row_fields [OF this] obtain t where
    "int_or_none (dict_get t ''capacity'' PNone) = Inr (capacity r)"
    "nonneg_int_or_none (dict_get t ''spaces_available'' PNone) = Inr (available_spaces r)"
    by blast
  then show "int_or_null (capacity r)" and "int_or_null (available_spaces r)"
    by (auto dest: int_or_none_result nonneg_int_or_none_result)
next
  assume run: "parse_standard py_repr state_name static_list dynamic_list = Inr rows"
    and ss: "py_iter (py_or static_list (PList [])) = Inr ss"
  from parse_standard_parts [OF run] obtain ds tbl
    where ds: "py_iter (py_or dynamic_list (PList [])) = Inr ds"
      and tbl: "build_lookup [] ds = Inr tbl"
    by blast
  show "length rows = length ss"
    by (rule parse_standard_rows(1) [OF run ds tbl ss])
  fix i
  assume "i < length ss"
  then have "standard_row py_repr state_name tbl (ss ! i) = Inr (rows ! i)"
    by (rule parse_standard_rows(2) [OF run ds tbl ss])
  from standard_row_fields [OF this] obtain sd dd ld where
    s: "ss ! i = PDict sd"
    and l: "normalize_loc (dict_get sd ''location'' (PDict [])) = PDict ld"
    and c: "int_or_none (dict_get sd ''capacity'' (dict_get dd ''capacity'' PNone)) = Inr (capacity (rows ! i))"
    and a: "int_or_none (dict_get dd ''reportedAvailable'' PNone) = Inr (available_spaces (rows ! i))"
    and la: "latitude (rows ! i) = dict_get ld ''latitude'' PNone"
    and lo: "longitude (rows ! i) = dict_get ld ''longitude'' PNone"
    by blast
  from c show "int_or_null (capacity (rows ! i))"
    by (rule int_or_none_result)
  from a show "int_or_null (available_spaces (rows ! i))"
    by (rule int_or_none_result)
  from s l la lo
  show "\<exists>sd ld. ss ! i = PDict sd
      \<and> normalize_loc (dict_get sd ''location'' (PDict [])) = PDict ld
      \<and> latitude (rows ! i) = dict_get ld ''latitude'' PNone
      \<and> longitude (rows ! i) = dict_get ld ''longitude'' PNone"
    by blast
qed

theorem numeric_fields_witness:
  "parse_indiana example_geojson PNone = Inr example_indiana_rows
   \<and> int_or_null (capacity (example_indiana_rows ! 0))
   \<and> int_or_null (available_spaces (example_indiana_rows ! 1))
   \<and> parse_standard example_repr ''Illinois'' example_static example_dynamic =
       Inr example_standard_rows
   \<and> length example_standard_rows = 2
   \<and> int_or_null (capacity (example_standard_rows ! 0))
   \<and> int_or_null (available_spaces (example_standard_rows ! 1))
   \<and> latitude (example_standard_rows ! 1) = PStr ''n/a''"
proof -
  note inst = numeric_fields [of example_geojson PNone example_indiana_rows example_repr
      "''Illinois''" example_static example_dynamic example_standard_rows]
  from inst example_geojson_rows
  have a: "\<forall>r\<in>set example_indiana_rows.
      int_or_null (capacity r) \<and> int_or_null (available_spaces r)"
    by blast
  from inst example_standard_run example_static_iter
  have b: "length example_standard_rows = 2"
    and c: "\<forall>i<2. int_or_null (capacity (example_standard_rows ! i))
        \<and> int_or_null (available_spaces (example_standard_rows ! i))"
    by auto
  from a have a': "int_or_null (capacity (example_indiana_rows ! 0))
      \<and> int_or_null (available_spaces (example_indiana_rows ! 1))"
    by (simp add: example_indiana_rows_def)
  from c have c': "int_or_null (capacity (example_standard_rows ! 0))
      \<and> int_or_null (available_spaces (example_standard_rows ! 1))"
    by simp
  have "latitude (example_standard_rows ! 1) = PStr ''n/a''"
    by (simp add: example_standard_rows_def)
  with a' b c' example_geojson_rows example_standard_run show ?thesis
    by simp
qed

text \<open>
  C2 as stated fails: a location whose latitude is a text gives the row that text as
  its latitude, neither a number nor null.
\<close>

theorem latitude_text_counterexample:
  "parse_standard example_repr ''Illinois'' example_static example_dynamic =
     Inr example_standard_rows
   \<and> latitude (example_standard_rows ! 1) = PStr ''n/a''
   \<and> \<not> number_or_null (latitude (example_standard_rows ! 1))"
  by (simp add: example_standard_run) (simp add: example_standard_rows_def)

text \<open>
  C4. In a run of \<^verbatim>\<open>parse_standard\<close> that returns its rows, the row of the static
  record at position \<open>i\<close> takes \<^verbatim>\<open>available_spaces\<close> from the
  \<^verbatim>\<open>reportedAvailable\<close> field of the dynamic record found for its site and from nothing
  else: the integer \<^verbatim>\<open>int\<close> converts it to, negative or not, and null when \<^verbatim>\<open>int\<close>
  refuses it.
\<close>

theorem standard_available_kept:
  assumes "parse_standard py_repr state_name static_list dynamic_list = Inr rows"
    and "py_iter (py_or dynamic_list (PList [])) = Inr ds"
    and "build_lookup [] ds = Inr tbl"
    and "py_iter (py_or static_list (PList [])) = Inr ss"
    and "i < length ss"
    and "py_get (ss ! i) ''siteId'' (PStr '''') = Inr sid"
    and "lookup_get tbl sid (PDict []) = Inr dyn"
    and "py_get dyn ''reportedAvailable'' PNone = Inr v"
  shows "i < length rows
    \<and> available_spaces (rows ! i) = (case py_int v of Inr n \<Rightarrow> PInt n | Inl e \<Rightarrow> PNone)
    \<and> py_int v \<noteq> Inl OverflowError"
proof -
  have len: "length rows = length ss"
    by (rule parse_standard_rows(1) [OF assms(1-4)])
  have "standard_row py_repr state_name tbl (ss ! i) = Inr (rows ! i)"
    by (rule parse_standard_rows(2) [OF assms(1-5)])
  from standard_row_fields [OF this] obtain sd dd where
    s: "ss ! i = PDict sd"
    and l: "lookup_get tbl (dict_get sd ''siteId'' (PStr '''')) (PDict []) = Inr (PDict dd)"
    and a: "int_or_none (dict_get dd ''reportedAvailable'' PNone) = Inr (available_spaces (rows ! i))"
    by blast
  from assms(6) s have "sid = dict_get sd ''siteId'' (PStr '''')" by simp
  with assms(7) l have "dyn = PDict dd" by simp
  with assms(8) have "v = dict_get dd ''reportedAvailable'' PNone" by simp
  with a have "int_or_none v = Inr (available_spaces (rows ! i))" by simp
  from int_or_none_cases [OF this] len assms(5) show ?thesis by simp
qed

theorem standard_available_kept_witness:
  "parse_standard example_repr ''Illinois'' example_static example_dynamic =
     Inr example_standard_rows
   \<and> lookup_get example_lookup (PStr ''A1'') (PDict []) =
       Inr (PDict [(''siteId'', PStr ''A1''), (''reportedAvailable'', PInt (- 3)),
                   (''open'', PNone), (''trustData'', PBool True)])
   \<and> py_int (PInt (- 3)) = Inr (- 3)
   \<and> available_spaces (example_standard_rows ! 0) = PInt (- 3)"
proof -
  let ?d = "PDict [(''siteId'', PStr ''A1''), (''reportedAvailable'', PInt (- 3)),
                   (''open'', PNone), (''trustData'', PBool True)]"
  have l: "lookup_get example_lookup (PStr ''A1'') (PDict []) = Inr ?d"
    by (simp add: example_lookup_def lookup_get_def key_eq_def)
  have "available_spaces (example_standard_rows ! 0) = PInt (- 3)"
    using standard_available_kept [OF example_standard_run example_dynamic_iter
        example_dynamic_lookup example_static_iter, of 0 "PStr ''A1''" ?d "PInt (- 3)"] l
    by (simp add: dict_get_def)
  with l example_standard_run show ?thesis
    by simp
qed

text \<open>
  C6. In a run of \<^verbatim>\<open>parse_standard\<close> that returns its rows there is one row for each
  static record, in order. When no record of the dynamic list has a site identifier
  equal to that of the static record at position \<open>i\<close>, its row has a null
  \<^verbatim>\<open>available_spaces\<close> and empty \<^verbatim>\<open>is_open\<close> and \<^verbatim>\<open>trust_data\<close>.
\<close>

theorem standard_row_without_dynamic:
  assumes "parse_standard py_repr state_name static_list dynamic_list = Inr rows"
    and "py_iter (py_or dynamic_list (PList [])) = Inr ds"
    and "py_iter (py_or static_list (PList [])) = Inr ss"
    and "i < length ss"
    and "py_get (ss ! i) ''siteId'' (PStr '''') = Inr sid"
    and "\<forall>d\<in>set ds. \<forall>k. py_get d ''siteId'' (PStr '''') = Inr k \<longrightarrow> \<not> key_eq k sid"
  shows "length rows = length ss \<and> site_id (rows ! i) = sid
    \<and> available_spaces (rows ! i) = PNone
    \<and> is_open (rows ! i) = PStr '''' \<and> trust_data (rows ! i) = PStr ''''"
proof -
  from parse_standard_parts [OF assms(1)] assms(2) obtain tbl
    where tbl: "build_lookup [] ds = Inr tbl"
    by auto
  have len: "length rows = length ss"
    by (rule parse_standard_rows(1) [OF assms(1,2) tbl assms(3)])
  have "standard_row py_repr state_name tbl (ss ! i) = Inr (rows ! i)"
    by (rule parse_standard_rows(2) [OF assms(1,2) tbl assms(3,4)])
  from standard_row_fields [OF this] obtain sd dd op td where
    s: "ss ! i = PDict sd"
    and l: "lookup_get tbl (dict_get sd ''siteId'' (PStr '''')) (PDict []) = Inr (PDict dd)"
    and a: "int_or_none (dict_get dd ''reportedAvailable'' PNone) = Inr (available_spaces (rows ! i))"
    and o: "py_str py_repr (dict_get dd ''open'' (PStr '''')) = Inr op" "is_open (rows ! i) = PStr op"
    and t: "py_str py_repr (dict_get dd ''trustData'' (PStr '''')) = Inr td" "trust_data (rows ! i) = PStr td"
    and i: "site_id (rows ! i) = dict_get sd ''siteId'' (PStr '''')"
    by blast
  from assms(5) s have sid: "sid = dict_get sd ''siteId'' (PStr '''')" by simp
  have "lookup_find tbl sid = None"
    by (rule build_lookup_no_match [OF tbl assms(6)])
  with l sid have dd: "dd = []"
    by (simp add: lookup_get_def split: if_splits)
  from a dd have "available_spaces (rows ! i) = PNone"
    by (simp add: dict_get_def int_or_none_def)
  moreover from o dd have "is_open (rows ! i) = PStr ''''"
    by (simp add: dict_get_def)
  moreover from t dd have "trust_data (rows ! i) = PStr ''''"
    by (simp add: dict_get_def)
  ultimately show ?thesis
    using len i sid by simp
qed

theorem standard_row_without_dynamic_witness:
  "parse_standard example_repr ''Illinois'' example_static example_dynamic =
     Inr example_standard_rows
   \<and> \<not> key_eq (PStr ''A1'') (PStr ''B2'')
   \<and> length example_standard_rows = 2
   \<and> site_id (example_standard_rows ! 1) = PStr ''B2''
   \<and> available_spaces (example_standard_rows ! 1) = PNone
   \<and> is_open (example_standard_rows ! 1) = PStr ''''
   \<and> trust_data (example_standard_rows ! 1) = PStr ''''"
proof -
  have k: "\<not> key_eq (PStr ''A1'') (PStr ''B2'')"
    by (simp add: key_eq_def)
  have "length example_standard_rows = 2 \<and> site_id (example_standard_rows ! 1) = PStr ''B2''
      \<and> available_spaces (example_standard_rows ! 1) = PNone
      \<and> is_open (example_standard_rows ! 1) = PStr ''''
      \<and> trust_data (example_standard_rows ! 1) = PStr ''''"
    using standard_row_without_dynamic [OF example_standard_run example_dynamic_iter
        example_static_iter, of 1 "PStr ''B2''"] k
    by (simp add: dict_get_def)
  with k example_standard_run show ?thesis
    by simp
qed

text \<open>
  C7 fails on the code. A location that is a non-empty list is replaced by its first
  element whatever that element is; when it is not a mapping, reading the latitude
  raises \<^verbatim>\<open>AttributeError\<close> and \<^verbatim>\<open>parse_standard\<close> returns no rows at all.
\<close>

theorem location_list_of_non_mapping_raises:
  "normalize_loc (PList [PNone]) = PNone
   \<and> py_get (normalize_loc (PList [PNone])) ''latitude'' PNone = Inl AttributeError
   \<and> parse_standard example_repr ''Illinois'' example_static_null_location (PList []) =
       Inl AttributeError"
  by (simp add: example_null_location_run) (simp add: py_get_def)

text \<open>
  C5. The poll time is read once and formatted once. When the reading of the clock is
  a date of the years 1000 to 9999, the text has the shape
  \<^verbatim>\<open>^\d{4}-\d{2}-\d{2}T\d{2}:\d{2}:\d{2}Z$\<close>, and every row of a run that exits carries
  that same text as \<^verbatim>\<open>poll_utc\<close>, also in the dictionary built for the sink.
\<close>

theorem poll_utc_shared:
  assumes "valid_datetime poll_time"
    and "main py_repr poll_time fetch_json insert_rows_json = Exited code rows"
  shows "poll_utc_shape (strftime poll_time)
    \<and> (\<forall>r\<in>set rows. poll_utc r = PStr (strftime poll_time)
                     \<and> poll_utc (bq_row r) = PStr (strftime poll_time))"
proof -
  from main_rows [OF assms(2)] obtain parsed
    where "rows = map (stamp (strftime poll_time)) parsed"
    by blast
  then have "\<forall>r\<in>set rows. poll_utc r = PStr (strftime poll_time)"
    by (auto simp: poll_utc_stamp)
  then have "\<forall>r\<in>set rows. poll_utc r = PStr (strftime poll_time)
      \<and> poll_utc (bq_row r) = PStr (strftime poll_time)"
    by (simp add: bq_row_def)
  with strftime_shape [OF assms(1)] show ?thesis
    by simp
qed

theorem poll_utc_shared_witness:
  "valid_datetime example_poll_time
   \<and> main example_repr example_poll_time example_fetch accepting_sink =
       Exited 0 (map (stamp ''2026-11-04T03:00:59Z'') example_standard_rows)
   \<and> poll_utc_shape ''2026-11-04T03:00:59Z''
   \<and> poll_utc (stamp ''2026-11-04T03:00:59Z'' (example_standard_rows ! 0)) =
       PStr ''2026-11-04T03:00:59Z''
   \<and> poll_utc (stamp ''2026-11-04T03:00:59Z'' (example_standard_rows ! 1)) =
       PStr ''2026-11-04T03:00:59Z''"
proof -
  have v: "valid_datetime example_poll_time"
    by (simp add: valid_datetime_def example_poll_time_def)
  have m: "main example_repr example_poll_time example_fetch accepting_sink =
      Exited 0 (map (stamp ''2026-11-04T03:00:59Z'') example_standard_rows)"
    by (simp add: main_def Let_def example_fetch_parsed example_poll_str accepting_sink_def
        example_standard_rows_def)
  from poll_utc_shared [OF v m]
  have "poll_utc_shape ''2026-11-04T03:00:59Z''
      \<and> poll_utc (stamp ''2026-11-04T03:00:59Z'' (example_standard_rows ! 0)) =
          PStr ''2026-11-04T03:00:59Z''
      \<and> poll_utc (stamp ''2026-11-04T03:00:59Z'' (example_standard_rows ! 1)) =
          PStr ''2026-11-04T03:00:59Z''"
    by (simp add: example_poll_str example_standard_rows_def)
  with v m show ?thesis
    by simp
qed

text \<open>
  C9. In a run whose parsing raises nothing: with no rows the exit status is 1 when
  feed errors were recorded and 0 otherwise, and the sink is not called; with rows, the
  exit status is 1 when the sink returns row errors and 0 when it returns none, whatever
  feed errors were recorded.
\<close>

theorem exit_status:
  assumes "parse_all py_repr (fetch_raw fetch_json) = Inr parsed"
  shows "(parsed = [] \<longrightarrow>
            main py_repr poll_time fetch_json insert_rows_json =
              Exited (if fetch_errors fetch_json \<noteq> [] then 1 else 0) [])
    \<and> (parsed \<noteq> [] \<longrightarrow>
         (\<forall>bq_errors.
            insert_rows_json (map bq_row (map (stamp (strftime poll_time)) parsed)) =
              Inr bq_errors \<longrightarrow>
            main py_repr poll_time fetch_json insert_rows_json =
              Exited (if bq_errors \<noteq> [] then 1 else 0)
                (map (stamp (strftime poll_time)) parsed)))"
  using assms by (simp add: main_def Let_def)

theorem exit_status_witness:
  "parse_all example_repr (fetch_raw failing_fetch) = Inr []
   \<and> fetch_errors failing_fetch \<noteq> []
   \<and> main example_repr example_poll_time failing_fetch accepting_sink = Exited 1 []
   \<and> parse_all example_repr (fetch_raw example_fetch) = Inr example_standard_rows
   \<and> fetch_errors example_fetch \<noteq> []
   \<and> main example_repr example_poll_time example_fetch accepting_sink =
       Exited 0 (map (stamp (strftime example_poll_time)) example_standard_rows)
   \<and> main example_repr example_poll_time example_fetch rejecting_sink =
       Exited 1 (map (stamp (strftime example_poll_time)) example_standard_rows)"
proof -
  have n: "example_standard_rows \<noteq> []"
    by (simp add: example_standard_rows_def)
  have a: "main example_repr example_poll_time failing_fetch accepting_sink = Exited 1 []"
    using exit_status [OF failing_fetch_parsed, of example_poll_time accepting_sink]
      failing_fetch_errors
    by simp
  have b: "main example_repr example_poll_time example_fetch accepting_sink =
      Exited 0 (map (stamp (strftime example_poll_time)) example_standard_rows)"
    using exit_status [OF example_fetch_parsed, of example_poll_time accepting_sink] n
    by (simp add: accepting_sink_def)
  have c: "main example_repr example_poll_time example_fetch rejecting_sink =
      Exited 1 (map (stamp (strftime example_poll_time)) example_standard_rows)"
    using exit_status [OF example_fetch_parsed, of example_poll_time rejecting_sink] n
    by (simp add: rejecting_sink_def)
  from a b c failing_fetch_parsed failing_fetch_errors example_fetch_parsed
    example_fetch_errors
  show ?thesis
    by simp
qed

end
